theory Spec2Isabelle
  imports Main "HOL-Library.AList"
begin

section \<open>Autostart Manager: data model\<close>

text \<open>
  The program is one Python file, \<^verbatim>\<open>src/AutoLoad.py\<close>. Its core state lives in the
  fields of \<^verbatim>\<open>AutostartManager\<close> (the batch table, the dictionary of launched
  processes, the current theme), in two JSON files and in the registry's Run key.
  Everything outside the program is an oracle of the environment: which paths exist,
  what a shell command returns, whether a file can be opened for writing.

  Paths and names are values of type \<^typ>\<open>string\<close>. A cell of the status column holds
  the text \<^verbatim>\<open>"Running"\<close> or \<^verbatim>\<open>"Stopped"\<close>; it is a two-valued datatype here.
  Calls to the logger and the display of the log file (\<^verbatim>\<open>load_logs\<close>) are not
  modelled; every message box and every call that reaches a store or the operating
  system is recorded, in order, in the field \<open>effects\<close>. \<open>RefreshListing\<close> stands for
  the call of \<^verbatim>\<open>load_autostart_processes\<close>, which reads both backends to fill the
  displayed table and writes to neither.
\<close>

datatype status = Stopped | Running

datatype msg_kind = Information | Warning | Critical

datatype effect =
    MessageBox msg_kind string
  | FileWrite string
  | RegSetValue string string
  | RegDeleteValue string
  | Shell string
  | Popen string
  | RefreshListing

text \<open>
  A JSON file on disk: absent, present with a content that \<^verbatim>\<open>json.load\<close> rejects (the
  text of the exception is kept), or present with a document of the expected shape.
  \<^verbatim>\<open>json.dump\<close> followed by \<^verbatim>\<open>json.load\<close> returns the dumped value; documents of
  another shape than the one the program writes are outside this model.
\<close>

datatype 'a json_file = Missing | Malformed string | Content 'a

text \<open>The result of \<^verbatim>\<open>subprocess.run(cmd, shell=True, ...)\<close>: it raises, or it completes
  with a return code and the captured standard error.\<close>

datatype run_result = Raised string | Completed int string

record settings =
  batch_list :: "string list option"
  theme :: "string option"

record env =
  path_exists :: "string \<Rightarrow> bool"
  basename :: "string \<Rightarrow> string"
  open_write :: "string \<Rightarrow> string option"
  shell_run :: "string \<Rightarrow> run_result"
  popen :: "string \<Rightarrow> string option"
  open_run_key :: "string option"
  uuid_hex8 :: string

record manager =
  batch_table :: "(string \<times> status) list"
  processes :: "(string \<times> string) list"
  current_theme :: string
  batch_list_json :: "string list json_file"
  config_json :: "string json_file"
  run_key :: "(string \<times> string) list"
  effects :: "effect list"

definition batch_list_file :: string where
  "batch_list_file = ''batch_list.json''"

definition config_file :: string where
  "config_file = ''config.json''"

definition emit :: "effect \<Rightarrow> manager \<Rightarrow> manager" where
  "emit e st = st\<lparr>effects := effects st @ [e]\<rparr>"

definition paths :: "manager \<Rightarrow> string list" where
  "paths st = map fst (batch_table st)"

section \<open>Path validity\<close>

text \<open>
  \<^verbatim>\<open>str.lower\<close> on the ASCII letters, and \<^verbatim>\<open>str.endswith\<close>. The three extensions
  are ASCII, and no other character is lowered to one of their letters, so what
  \<^verbatim>\<open>str.lower\<close> does beyond ASCII does not change the test.
\<close>

definition lower_char :: "char \<Rightarrow> char" where
  "lower_char c =
     (case map_of (zip ''ABCDEFGHIJKLMNOPQRSTUVWXYZ'' ''abcdefghijklmnopqrstuvwxyz'') c of
        Some l \<Rightarrow> l
      | None \<Rightarrow> c)"

definition lower :: "string \<Rightarrow> string" where
  "lower s = map lower_char s"

definition endswith :: "string \<Rightarrow> string \<Rightarrow> bool" where
  "endswith s suf = (length suf \<le> length s \<and> drop (length s - length suf) s = suf)"

text \<open>
  \<^verbatim>\<open>DragDropLineEdit.is_valid_file\<close>:
  \<^verbatim>\<open>os.path.exists(p) and p.lower().endswith(('.exe', '.bat', '.cmd'))
       and not any(c in p for c in '<>|&')\<close>
\<close>

definition is_valid_file :: "env \<Rightarrow> string \<Rightarrow> bool" where
  "is_valid_file ev file_path =
     (path_exists ev file_path \<and>
      (endswith (lower file_path) ''.exe'' \<or> endswith (lower file_path) ''.bat''
         \<or> endswith (lower file_path) ''.cmd'') \<and>
      \<not> list_ex (\<lambda>c. List.member file_path c) ''<>|&'')"

section \<open>The batch list store\<close>

text \<open>
  \<^verbatim>\<open>save_batch_list\<close> writes the first column of the table. A failure to open the file
  is caught and shown; the file then keeps its content.
\<close>

definition save_batch_list :: "env \<Rightarrow> manager \<Rightarrow> manager" where
  "save_batch_list ev st =
     (let batch_items = map fst (batch_table st);
          st1 = emit (FileWrite batch_list_file) st
      in case open_write ev batch_list_file of
           None \<Rightarrow> st1\<lparr>batch_list_json := Content batch_items\<rparr>
         | Some e \<Rightarrow> emit (MessageBox Critical (''Failed to save batch list: '' @ e)) st1)"

text \<open>The loop of \<^verbatim>\<open>load_batch_list\<close>: one row per valid item, appended at the end,
  its status read from the dictionary of launched processes.\<close>

fun load_rows :: "env \<Rightarrow> (string \<times> string) list \<Rightarrow> string list
    \<Rightarrow> (string \<times> status) list \<Rightarrow> (string \<times> status) list" where
  "load_rows ev procs [] table = table"
| "load_rows ev procs (item # items) table =
     (if is_valid_file ev item
      then load_rows ev procs items
             (table @ [(item, if item \<in> fst ` set procs then Running else Stopped)])
      else load_rows ev procs items table)"

definition load_batch_list :: "env \<Rightarrow> manager \<Rightarrow> manager" where
  "load_batch_list ev st =
     (case batch_list_json st of
        Missing \<Rightarrow> st
      | Malformed e \<Rightarrow> emit (MessageBox Critical (''Failed to load batch list: '' @ e)) st
      | Content batch_items \<Rightarrow>
          st\<lparr>batch_table := load_rows ev (processes st) batch_items []\<rparr>)"

text \<open>
  \<^verbatim>\<open>add_batch_file\<close>; \<open>file_path\<close> is what the file dialog returned (empty when it was
  cancelled). The loop over the rows returns at the first row that holds the same path.
\<close>

definition add_batch_file :: "env \<Rightarrow> manager \<Rightarrow> string \<Rightarrow> manager" where
  "add_batch_file ev st file_path =
     (if file_path \<noteq> [] \<and> is_valid_file ev file_path
      then (if List.member (map fst (batch_table st)) file_path then st
            else save_batch_list ev (st\<lparr>batch_table := batch_table st @ [(file_path, Stopped)]\<rparr>))
      else st)"

text \<open>
  \<^verbatim>\<open>DragDropTableWidget.dropEvent\<close>, the branch of a drag inside the table.
  \<open>selected\<close> is the row of the first selected index (\<open>None\<close>: nothing selected),
  \<open>row_at\<close> the row under the drop position (\<open>None\<close> where \<^verbatim>\<open>rowAt\<close> returns -1).
  Qt hands out rows of the table only; a row beyond the table leaves the state alone.
\<close>

definition dropEvent :: "env \<Rightarrow> manager \<Rightarrow> nat option \<Rightarrow> nat option \<Rightarrow> manager" where
  "dropEvent ev st selected row_at =
     (case selected of
        None \<Rightarrow> st
      | Some from_row \<Rightarrow>
          (let row_count = length (batch_table st);
               to_row = (case row_at of None \<Rightarrow> row_count | Some r \<Rightarrow> r)
           in if from_row = to_row \<or> from_row + 1 = to_row then st
              else if row_count \<le> from_row \<or> row_count < to_row then st
              else
                (let items = batch_table st ! from_row;
                     removed = take from_row (batch_table st) @ drop (Suc from_row) (batch_table st);
                     to_row' = (if from_row < to_row then to_row - 1 else to_row)
                 in save_batch_list ev
                      (st\<lparr>batch_table := take to_row' removed @ [items] @ drop to_row' removed\<rparr>))))"

section \<open>The batch process manager\<close>

definition dq :: string where
  "dq = [CHR 0x22]"

definition sq :: string where
  "sq = [CHR 0x27]"

text \<open>
  \<^verbatim>\<open>start_all_batch\<close>: the dictionary is cleared, then every row is launched with
  \<^verbatim>\<open>subprocess.Popen(file_path, shell=True)\<close>. \<open>popen ev p = None\<close> says that the call
  returned, \<open>Some e\<close> that it raised with text \<open>e\<close>. Python's dictionary keeps the place
  of a key that is assigned again, as \<^const>\<open>AList.update\<close> does.
\<close>

fun start_rows :: "env \<Rightarrow> nat list \<Rightarrow> manager \<Rightarrow> manager" where
  "start_rows ev [] st = st"
| "start_rows ev (row # rows) st =
     (let file_path = fst (batch_table st ! row);
          process_name = basename ev file_path;
          st1 = emit (Popen file_path) st
      in case popen ev file_path of
           None \<Rightarrow>
             start_rows ev rows
               (st1\<lparr>processes := AList.update file_path process_name (processes st1),
                    batch_table := (batch_table st1)[row := (file_path, Running)]\<rparr>)
         | Some e \<Rightarrow>
             start_rows ev rows
               ((emit (MessageBox Critical (''Failed to start '' @ process_name @ '': '' @ e)) st1)
                  \<lparr>batch_table := (batch_table st1)[row := (file_path, Stopped)]\<rparr>))"

definition start_all_batch :: "env \<Rightarrow> manager \<Rightarrow> manager" where
  "start_all_batch ev st =
     start_rows ev [0..<length (batch_table st)] (st\<lparr>processes := []\<rparr>)"

text \<open>
  \<^verbatim>\<open>stop_all_batch\<close> walks a copy of the dictionary's items; both the \<^verbatim>\<open>try\<close> body and
  the handler end with \<^verbatim>\<open>del self.processes[file_path]\<close>.
\<close>

definition taskkill_cmd :: "string \<Rightarrow> string" where
  "taskkill_cmd process_name = ''taskkill /IM '' @ dq @ process_name @ dq @ '' /F''"

fun stop_items :: "env \<Rightarrow> (string \<times> string) list \<Rightarrow> manager \<Rightarrow> manager" where
  "stop_items ev [] st = st"
| "stop_items ev ((file_path, process_name) # items) st =
     (let st1 = emit (Shell (taskkill_cmd process_name)) st;
          st2 = (case shell_run ev (taskkill_cmd process_name) of
                   Completed returncode stderr \<Rightarrow>
                     (if returncode \<noteq> 0
                      then emit (MessageBox Warning
                                   (''Could not stop '' @ process_name @ '': '' @ stderr)) st1
                      else st1)
                 | Raised e \<Rightarrow>
                     emit (MessageBox Critical
                             (''Failed to stop '' @ process_name @ '': '' @ e)) st1)
      in stop_items ev items (st2\<lparr>processes := AList.delete file_path (processes st2)\<rparr>))"

definition stop_all_batch :: "env \<Rightarrow> manager \<Rightarrow> manager" where
  "stop_all_batch ev st =
     (let st1 = stop_items ev (processes st) st
      in st1\<lparr>batch_table := map (\<lambda>row. (fst row, Stopped)) (batch_table st1)\<rparr>)"

section \<open>The autostart registrar\<close>

text \<open>
  \<^verbatim>\<open>re.match(r'^[a-zA-Z0-9_-]+$', app_name)\<close>. Without \<^verbatim>\<open>re.MULTILINE\<close>, Python's
  \<^verbatim>\<open>$\<close> matches at the end of the string and also just before a newline that is the
  last character of the string. The class holds no newline, so the greedy \<^verbatim>\<open>+\<close> takes
  the longest prefix of class characters and \<^verbatim>\<open>$\<close> decides on what is left.
\<close>

definition name_char :: "char \<Rightarrow> bool" where
  "name_char c =
     List.member ''abcdefghijklmnopqrstuvwxyzABCDEFGHIJKLMNOPQRSTUVWXYZ0123456789_-'' c"

definition re_match_name :: "string \<Rightarrow> bool" where
  "re_match_name s =
     (takeWhile name_char s \<noteq> [] \<and>
      (dropWhile name_char s = [] \<or> dropWhile name_char s = [CHR 0x0A]))"

definition validate_app_name :: "string \<Rightarrow> bool \<times> string" where
  "validate_app_name app_name =
     (if app_name = [] then (False, ''Application name cannot be empty'')
      else if \<not> re_match_name app_name
      then (False, ''Application name can only contain letters, numbers, underscores, or hyphens'')
      else (True, []))"

text \<open>
  The two backends. Each returns the text of the exception it raised, if any, with the
  state it reached. \<open>open_run_key ev\<close> is \<open>Some e\<close> when \<^verbatim>\<open>winreg.OpenKey\<close> raises;
  \<^verbatim>\<open>SetValueEx\<close> replaces the value of a name that is there. The text of the task
  definition written to the temporary file is not modelled.
\<close>

definition add_to_registry :: "env \<Rightarrow> manager \<Rightarrow> string \<Rightarrow> string \<Rightarrow> string option \<times> manager" where
  "add_to_registry ev st file_path app_name =
     (case open_run_key ev of
        Some e \<Rightarrow> (Some e, st)
      | None \<Rightarrow>
          (let command = dq @ file_path @ dq
           in (None, (emit (RegSetValue app_name command) st)
                       \<lparr>run_key := AList.update app_name command (run_key st)\<rparr>)))"

definition schtasks_create_cmd :: "string \<Rightarrow> string \<Rightarrow> string" where
  "schtasks_create_cmd temp_xml task_name =
     ''schtasks /Create /XML '' @ dq @ temp_xml @ dq @ '' /TN '' @ dq @ task_name @ dq"

definition add_to_task_scheduler :: "env \<Rightarrow> manager \<Rightarrow> string \<Rightarrow> string \<Rightarrow> string option \<times> manager" where
  "add_to_task_scheduler ev st file_path app_name =
     (let task_name = ''Autostart_'' @ app_name @ ''_'' @ uuid_hex8 ev;
          temp_xml = task_name @ ''.xml'';
          st1 = emit (FileWrite temp_xml) st
      in case open_write ev temp_xml of
           Some e \<Rightarrow> (Some e, st1)
         | None \<Rightarrow>
             (let cmd = schtasks_create_cmd temp_xml task_name;
                  st2 = emit (Shell cmd) st1
              in case shell_run ev cmd of
                   Raised e \<Rightarrow> (Some e, st2)
                 | Completed returncode stderr \<Rightarrow>
                     (if returncode \<noteq> 0 then (Some (''Task creation error: '' @ stderr), st2)
                      else (None, st2))))"

definition add_to_autostart :: "env \<Rightarrow> manager \<Rightarrow> string \<Rightarrow> string \<Rightarrow> bool \<Rightarrow> manager" where
  "add_to_autostart ev st file_path app_name run_as_admin =
     (if file_path = [] then emit (MessageBox Critical ''Specify file path!'') st
      else if \<not> fst (validate_app_name app_name)
      then emit (MessageBox Critical (snd (validate_app_name app_name))) st
      else if \<not> path_exists ev file_path
      then emit (MessageBox Critical ''The specified file does not exist!'') st
      else
        (case (if run_as_admin then add_to_task_scheduler ev st file_path app_name
               else add_to_registry ev st file_path app_name) of
           (None, st1) \<Rightarrow>
             emit RefreshListing
               (emit (MessageBox Information
                        (''Application '' @ sq @ app_name @ sq @ '' added to autostart!'')) st1)
         | (Some e, st1) \<Rightarrow>
             emit (MessageBox Critical (''Failed to add to autostart: '' @ e)) st1))"

text \<open>
  \<^verbatim>\<open>remove_process\<close>. \<open>reply_yes\<close> is the answer to the confirmation dialog.
  \<^verbatim>\<open>winreg.DeleteValue\<close> raises \<^verbatim>\<open>FileNotFoundError\<close> for a name the key does not hold;
  the scheduler branch runs \<^verbatim>\<open>schtasks /Delete\<close> and looks at nothing it returns.
\<close>

definition value_not_found :: string where
  "value_not_found = ''[WinError 2] The system cannot find the file specified''"

definition schtasks_delete_cmd :: "string \<Rightarrow> string" where
  "schtasks_delete_cmd name = ''schtasks /Delete /TN '' @ dq @ name @ dq @ '' /F''"

definition remove_backend :: "env \<Rightarrow> manager \<Rightarrow> string \<Rightarrow> string \<Rightarrow> string option \<times> manager" where
  "remove_backend ev st source name =
     (if source = ''Registry''
      then (case open_run_key ev of
              Some e \<Rightarrow> (Some e, st)
            | None \<Rightarrow>
                (if List.member (map fst (run_key st)) name
                 then (None, (emit (RegDeleteValue name) st)
                               \<lparr>run_key := AList.delete name (run_key st)\<rparr>)
                 else (Some value_not_found, emit (RegDeleteValue name) st)))
      else if source = ''Scheduler''
      then (case shell_run ev (schtasks_delete_cmd name) of
              Raised e \<Rightarrow> (Some e, emit (Shell (schtasks_delete_cmd name)) st)
            | Completed returncode stderr \<Rightarrow> (None, emit (Shell (schtasks_delete_cmd name)) st))
      else (None, st))"

definition remove_process :: "env \<Rightarrow> manager \<Rightarrow> bool \<Rightarrow> string \<Rightarrow> string \<Rightarrow> manager" where
  "remove_process ev st reply_yes source name =
     (if \<not> reply_yes then st
      else
        (case remove_backend ev st source name of
           (None, st1) \<Rightarrow>
             emit RefreshListing
               (emit (MessageBox Information
                        (''Application '' @ sq @ name @ sq @ '' removed from autostart!'')) st1)
         | (Some e, st1) \<Rightarrow>
             emit (MessageBox Critical (''Failed to remove from autostart: '' @ e)) st1))"

section \<open>Settings portability\<close>

definition save_theme :: "env \<Rightarrow> manager \<Rightarrow> manager" where
  "save_theme ev st =
     (let st1 = emit (FileWrite config_file) st
      in case open_write ev config_file of
           None \<Rightarrow> st1\<lparr>config_json := Content (current_theme st)\<rparr>
         | Some e \<Rightarrow> emit (MessageBox Critical (''Failed to save theme preference: '' @ e)) st1)"

text \<open>
  \<^verbatim>\<open>import_settings\<close>. \<open>file_path\<close> is the chosen file (empty: dialog cancelled) and
  \<open>bundle\<close> what that file holds. \<^verbatim>\<open>open\<close> and \<^verbatim>\<open>json.load\<close> come first; the table is
  emptied after them. \<^verbatim>\<open>apply_theme\<close> restyles the window and is not modelled.
\<close>

fun import_rows :: "env \<Rightarrow> string list \<Rightarrow> (string \<times> status) list \<Rightarrow> (string \<times> status) list" where
  "import_rows ev [] table = table"
| "import_rows ev (item # items) table =
     (if is_valid_file ev item then import_rows ev items (table @ [(item, Stopped)])
      else import_rows ev items table)"

definition no_such_file :: "string \<Rightarrow> string" where
  "no_such_file file_path = ''[Errno 2] No such file or directory: '' @ sq @ file_path @ sq"

definition import_loaded :: "env \<Rightarrow> manager \<Rightarrow> settings \<Rightarrow> manager" where
  "import_loaded ev st s =
     (let st1 = save_batch_list ev
                  (st\<lparr>batch_table :=
                        import_rows ev (case batch_list s of None \<Rightarrow> [] | Some items \<Rightarrow> items) []\<rparr>);
          theme = (case settings.theme s of None \<Rightarrow> ''light'' | Some t \<Rightarrow> t);
          st2 = (if theme = ''light'' \<or> theme = ''dark''
                 then save_theme ev (st1\<lparr>current_theme := theme\<rparr>)
                 else st1)
      in emit (MessageBox Information ''Settings imported successfully!'') st2)"

definition import_settings :: "env \<Rightarrow> manager \<Rightarrow> string \<Rightarrow> settings json_file \<Rightarrow> manager" where
  "import_settings ev st file_path bundle =
     (if file_path = [] then st
      else
        (case bundle of
           Missing \<Rightarrow>
             emit (MessageBox Critical (''Failed to import settings: '' @ no_such_file file_path)) st
         | Malformed e \<Rightarrow> emit (MessageBox Critical (''Failed to import settings: '' @ e)) st
         | Content s \<Rightarrow> import_loaded ev st s))"

section \<open>Reading the record of effects\<close>



section \<open>Concrete environments and states\<close>

text \<open>
  \<open>nothing_exists\<close>: no path exists. \<open>demo_env\<close>: four files on disk, a shell whose
  commands all end with exit code 1, and a launch call that returns only for
  \<^verbatim>\<open>C:/good.exe\<close>. \<open>shell_env\<close>: one file on disk and a launch call that returns for
  every command line. \<open>locked_env\<close>: the Run key cannot be opened and no command can
  be run. \<open>fresh\<close> is the state of a new session before any file is read.
\<close>

definition nothing_exists :: env where
  "nothing_exists =
     \<lparr>path_exists = (\<lambda>_. False), basename = (\<lambda>p. p), open_write = (\<lambda>_. None),
      shell_run = (\<lambda>_. Completed 0 []), popen = (\<lambda>_. None), open_run_key = None,
      uuid_hex8 = ''0123abcd''\<rparr>"

definition demo_env :: env where
  "demo_env =
     \<lparr>path_exists =
        List.member [''C:/good.exe'', ''C:/tools/run.BAT'', ''C:/a&b.exe'', ''C:/notes.txt''],
      basename = (\<lambda>p. rev (takeWhile (\<lambda>c. c \<noteq> CHR ''/'') (rev p))),
      open_write = (\<lambda>_. None),
      shell_run = (\<lambda>_. Completed 1 ''ERROR: The system cannot find the file specified.''),
      popen = (\<lambda>p. if p = ''C:/good.exe'' then None else Some ''[WinError 5] Access is denied''),
      open_run_key = None,
      uuid_hex8 = ''0123abcd''\<rparr>"

definition shell_env :: env where
  "shell_env =
     \<lparr>path_exists = List.member [''C:/good.exe''],
      basename = (\<lambda>p. rev (takeWhile (\<lambda>c. c \<noteq> CHR ''/'') (rev p))),
      open_write = (\<lambda>_. None),
      shell_run = (\<lambda>_. Completed 0 []),
      popen = (\<lambda>_. None),
      open_run_key = None,
      uuid_hex8 = ''0123abcd''\<rparr>"


definition fresh :: manager where
  "fresh =
     \<lparr>batch_table = [], processes = [], current_theme = ''light'',
      batch_list_json = Missing, config_json = Missing, run_key = [], effects = []\<rparr>"

section \<open>Properties\<close>

subsection \<open>Path validity on the concrete environment\<close>

lemma valid_good: "is_valid_file demo_env ''C:/good.exe''"
  by (simp add: is_valid_file_def demo_env_def endswith_def lower_def lower_char_def)

lemma valid_run: "is_valid_file demo_env ''C:/tools/run.BAT''"
  by (simp add: is_valid_file_def demo_env_def endswith_def lower_def lower_char_def)

lemma invalid_amp: "\<not> is_valid_file demo_env ''C:/a&b.exe''"
  by (simp add: is_valid_file_def demo_env_def endswith_def lower_def lower_char_def)

lemma invalid_txt: "\<not> is_valid_file demo_env ''C:/notes.txt''"
  by (simp add: is_valid_file_def demo_env_def endswith_def lower_def lower_char_def)

subsection \<open>Save and load\<close>

lemma load_rows_paths:
  "map fst (load_rows ev procs items table) = map fst table @ filter (is_valid_file ev) items"
  by (induction items arbitrary: table) simp_all

text \<open>
  C1, as stated, fails: \<^verbatim>\<open>load_batch_list\<close> keeps an item only if it passes
  \<^verbatim>\<open>is_valid_file\<close>, so a saved path whose file does not exist when the list is loaded
  is dropped. Here the list with the single path \<^verbatim>\<open>C:/a.exe\<close> is saved and loaded where
  no such file exists; what comes back is not that list.
\<close>

theorem save_load_roundtrip_counterexample:
  "paths (load_batch_list nothing_exists
            (save_batch_list nothing_exists (fresh\<lparr>batch_table := [(''C:/a.exe'', Stopped)]\<rparr>)))
     \<noteq> [''C:/a.exe'']"
  by (simp add: paths_def load_batch_list_def save_batch_list_def emit_def nothing_exists_def
      fresh_def is_valid_file_def Let_def)

text \<open>
  C1, amended: when the batch-list file can be written, saving the table and loading it
  again returns the saved paths that pass the validity check, in their order; so it
  returns the whole sequence when every path of it passes the check.
\<close>

theorem save_load_roundtrip:
  assumes "open_write ev batch_list_file = None"
  shows "paths (load_batch_list ev (save_batch_list ev st)) = filter (is_valid_file ev) (paths st)
         \<and> (list_all (is_valid_file ev) (paths st) \<longrightarrow>
              paths (load_batch_list ev (save_batch_list ev st)) = paths st)"
proof -
  have saved: "batch_list_json (save_batch_list ev st) = Content (paths st)"
    using assms by (simp add: save_batch_list_def emit_def paths_def Let_def)
  have "paths (load_batch_list ev (save_batch_list ev st)) = filter (is_valid_file ev) (paths st)"
    by (simp add: load_batch_list_def saved paths_def load_rows_paths)
  moreover have "list_all (is_valid_file ev) (paths st) \<Longrightarrow>
      filter (is_valid_file ev) (paths st) = paths st"
    by (simp add: list_all_iff)
  ultimately show ?thesis by simp
qed

theorem save_load_roundtrip_witness:
  "open_write demo_env batch_list_file = None \<and>
   list_all (is_valid_file demo_env) [''C:/tools/run.BAT'', ''C:/good.exe''] \<and>
   paths (load_batch_list demo_env
      (save_batch_list demo_env
         (fresh\<lparr>batch_table := [(''C:/tools/run.BAT'', Stopped), (''C:/good.exe'', Running)]\<rparr>)))
   = [''C:/tools/run.BAT'', ''C:/good.exe'']"
proof -
  have w: "open_write demo_env batch_list_file = None"
    by (simp add: demo_env_def)
  show ?thesis
    using w save_load_roundtrip [OF w,
        of "fresh\<lparr>batch_table := [(''C:/tools/run.BAT'', Stopped), (''C:/good.exe'', Running)]\<rparr>"]
    by (simp add: paths_def valid_good valid_run)
qed

subsection \<open>Stopping the batch\<close>

lemma stop_items_processes:
  "processes (stop_items ev items st) = filter (\<lambda>kv. fst kv \<notin> fst ` set items) (processes st)"
proof (induction items arbitrary: st)
  case Nil
  show ?case by simp
next
  case (Cons item items)
  obtain file_path process_name where item: "item = (file_path, process_name)"
    by (cases item)
  show ?case
    by (auto simp add: item Cons.IH Let_def emit_def AList.delete_eq split: run_result.split
        intro!: filter_cong)
qed

lemma stop_items_batch_table:
  "batch_table (stop_items ev items st) = batch_table st"
  by (induction items arbitrary: st) (auto simp add: Let_def emit_def split: run_result.split)

text \<open>
  C4: whatever the dictionary of launched processes holds and whatever each
  \<^verbatim>\<open>taskkill\<close> call does (exit code 0, another exit code, an exception),
  \<^verbatim>\<open>stop_all_batch\<close> leaves the dictionary empty; every row of the table reads Stopped.
\<close>

theorem stop_all_batch_empties:
  "processes (stop_all_batch ev st) = [] \<and>
   batch_table (stop_all_batch ev st) = map (\<lambda>row. (fst row, Stopped)) (batch_table st)"
proof -
  have "processes (stop_items ev (processes st) st) = []"
    by (simp add: stop_items_processes filter_empty_conv)
  then show ?thesis
    by (simp add: stop_all_batch_def Let_def stop_items_batch_table)
qed

text \<open>
  C4 on a concrete state: one tracked process whose \<^verbatim>\<open>taskkill\<close> ends with exit
  code 1; the dictionary is empty afterwards.
\<close>

theorem stop_all_batch_empties_witness:
  "processes (stop_all_batch demo_env
      (fresh\<lparr>batch_table := [(''C:/good.exe'', Running)],
             processes := [(''C:/good.exe'', ''good.exe'')]\<rparr>)) = []"
  using stop_all_batch_empties [where ev = demo_env
      and st = "fresh\<lparr>batch_table := [(''C:/good.exe'', Running)],
             processes := [(''C:/good.exe'', ''good.exe'')]\<rparr>"]
  by simp

subsection \<open>Reordering\<close>

text \<open>
  C6: a drop of the selected row \<open>i\<close> onto row \<open>i\<close> or row \<open>i + 1\<close> (the target row
  being the number of rows when the drop position is below the last row) returns before
  anything is touched: the table, the batch-list file and the record of effects, which
  would hold the write, are those of the state before.
\<close>

theorem dropEvent_noop:
  assumes "(case row_at of None \<Rightarrow> length (batch_table st) | Some r \<Rightarrow> r) = i
           \<or> (case row_at of None \<Rightarrow> length (batch_table st) | Some r \<Rightarrow> r) = i + 1"
  shows "dropEvent ev st (Some i) row_at = st"
  using assms by (auto simp add: dropEvent_def Let_def)

text \<open>
  C6 on a table of two rows: the last row dropped below the end of the table, and the
  first row dropped onto the second.
\<close>

theorem dropEvent_noop_witness:
  "dropEvent demo_env (fresh\<lparr>batch_table := [(''C:/a.exe'', Stopped), (''C:/b.exe'', Stopped)]\<rparr>)
     (Some 1) None
   = fresh\<lparr>batch_table := [(''C:/a.exe'', Stopped), (''C:/b.exe'', Stopped)]\<rparr>
   \<and> dropEvent demo_env (fresh\<lparr>batch_table := [(''C:/a.exe'', Stopped), (''C:/b.exe'', Stopped)]\<rparr>)
     (Some 0) (Some 1)
   = fresh\<lparr>batch_table := [(''C:/a.exe'', Stopped), (''C:/b.exe'', Stopped)]\<rparr>"
  using dropEvent_noop [where row_at = None and i = 1 and ev = demo_env
      and st = "fresh\<lparr>batch_table := [(''C:/a.exe'', Stopped), (''C:/b.exe'', Stopped)]\<rparr>"]
    dropEvent_noop [where row_at = "Some 1" and i = 0 and ev = demo_env
      and st = "fresh\<lparr>batch_table := [(''C:/a.exe'', Stopped), (''C:/b.exe'', Stopped)]\<rparr>"]
  by simp

text \<open>
  The move that is not rejected, for comparison (the example of the specification):
  row 0 of two rows dropped below the end of the table.
\<close>

lemma dropEvent_moves:
  "dropEvent demo_env (fresh\<lparr>batch_table := [(''C:/a.exe'', Stopped), (''C:/b.exe'', Stopped)]\<rparr>)
     (Some 0) None
   = fresh\<lparr>batch_table := [(''C:/b.exe'', Stopped), (''C:/a.exe'', Stopped)],
       batch_list_json := Content [''C:/b.exe'', ''C:/a.exe''],
       effects := [FileWrite ''batch_list.json'']\<rparr>"
  by (simp add: dropEvent_def fresh_def demo_env_def save_batch_list_def emit_def batch_list_file_def Let_def)

subsection \<open>Import of a file that does not parse\<close>

text \<open>
  C10: when \<^verbatim>\<open>json.load\<close> rejects the chosen file, \<^verbatim>\<open>import_settings\<close> changes nothing
  but the record of effects, to which it adds the error message: the table, the
  batch-list file, the current theme and the configuration file are as before, and no
  file is written.
\<close>

theorem import_malformed_atomic:
  "batch_table (import_settings ev st file_path (Malformed e)) = batch_table st
   \<and> batch_list_json (import_settings ev st file_path (Malformed e)) = batch_list_json st
   \<and> current_theme (import_settings ev st file_path (Malformed e)) = current_theme st
   \<and> config_json (import_settings ev st file_path (Malformed e)) = config_json st
   \<and> processes (import_settings ev st file_path (Malformed e)) = processes st
   \<and> run_key (import_settings ev st file_path (Malformed e)) = run_key st
   \<and> effects (import_settings ev st file_path (Malformed e)) =
       (if file_path = [] then effects st
        else effects st @ [MessageBox Critical (''Failed to import settings: '' @ e)])"
  by (simp add: import_settings_def emit_def)

text \<open>
  C10 on a concrete file whose content is not JSON.
\<close>

theorem import_malformed_atomic_witness:
  "import_settings demo_env fresh ''settings.json'' (Malformed ''Expecting value: line 1 column 1 (char 0)'')
   = fresh\<lparr>effects := [MessageBox Critical
        ''Failed to import settings: Expecting value: line 1 column 1 (char 0)'']\<rparr>"
  using import_malformed_atomic [where ev = demo_env and st = fresh
      and file_path = "''settings.json''" and e = "''Expecting value: line 1 column 1 (char 0)''"]
  by (simp add: fresh_def import_settings_def emit_def)

subsection \<open>Import of a well-formed bundle\<close>

lemma import_rows_eq:
  "import_rows ev items table = table @ map (\<lambda>p. (p, Stopped)) (filter (is_valid_file ev) items)"
  by (induction items arbitrary: table) simp_all

lemma save_batch_list_fields:
  "batch_table (save_batch_list ev st) = batch_table st"
  "current_theme (save_batch_list ev st) = current_theme st"
  "processes (save_batch_list ev st) = processes st"
  by (simp_all add: save_batch_list_def emit_def Let_def split: option.split)

lemma save_theme_fields:
  "batch_table (save_theme ev st) = batch_table st"
  "current_theme (save_theme ev st) = current_theme st"
  "batch_list_json (save_theme ev st) = batch_list_json st"
  by (simp_all add: save_theme_def emit_def Let_def split: option.split)

lemma is_valid_file_nonempty: "is_valid_file ev p \<Longrightarrow> p \<noteq> []"
  by (auto simp add: is_valid_file_def endswith_def lower_def)

lemma add_batch_file_accepts_iff:
  "paths (add_batch_file ev (st\<lparr>batch_table := []\<rparr>) p) = [p] \<longleftrightarrow> is_valid_file ev p"
  using is_valid_file_nonempty [of ev p]
  by (auto simp add: add_batch_file_def paths_def save_batch_list_fields)

text \<open>
  C8, as stated, fails: the check of the import is \<^verbatim>\<open>is_valid_file\<close>, which asks more
  than an approved extension and an existing file. \<^verbatim>\<open>C:/a&b.exe\<close> exists and ends in
  \<^verbatim>\<open>.exe\<close>, and the import drops it.
\<close>

theorem import_drops_shell_characters_counterexample:
  "path_exists demo_env ''C:/a&b.exe'' \<and> endswith (lower ''C:/a&b.exe'') ''.exe''
   \<and> batch_table (import_settings demo_env fresh ''settings.json''
         (Content \<lparr>batch_list = Some [''C:/a&b.exe''], theme = Some ''dark''\<rparr>)) = []"
  by (simp add: import_settings_def import_loaded_def Let_def save_batch_list_fields
      save_theme_fields emit_def invalid_amp)
    (simp add: demo_env_def endswith_def lower_def lower_char_def)

text \<open>
  C8, amended: for a bundle that holds a list of paths and a theme, \<^verbatim>\<open>import_settings\<close>
  makes the table exactly the entries of the list, in their order and all Stopped, whose
  file exists, whose name ends in \<^verbatim>\<open>.exe\<close>, \<^verbatim>\<open>.bat\<close> or \<^verbatim>\<open>.cmd\<close> in any
  case of the letters, and which hold none of \<^verbatim>\<open><\<close>, \<^verbatim>\<open>>\<close>, \<^verbatim>\<open>|\<close>, \<^verbatim>\<open>&\<close>; these
  are the paths that \<^verbatim>\<open>add_batch_file\<close> adds to an empty table. The other entries are
  dropped and the import still ends with its success message. The theme becomes the
  bundle's when that is \<^verbatim>\<open>light\<close> or \<^verbatim>\<open>dark\<close> and stays what it was otherwise. When
  the batch-list file can be written it holds the kept paths.
\<close>

theorem import_keeps_valid_entries:
  assumes "file_path \<noteq> []" and "batch_list s = Some items" and "settings.theme s = Some t"
  shows "batch_table (import_settings ev st file_path (Content s))
           = map (\<lambda>p. (p, Stopped))
               (filter (\<lambda>p. path_exists ev p
                            \<and> (endswith (lower p) ''.exe'' \<or> endswith (lower p) ''.bat''
                                 \<or> endswith (lower p) ''.cmd'')
                            \<and> \<not> list_ex (\<lambda>c. List.member p c) ''<>|&'') items)
         \<and> batch_table (import_settings ev st file_path (Content s))
           = map (\<lambda>p. (p, Stopped))
               (filter (\<lambda>p. paths (add_batch_file ev (st\<lparr>batch_table := []\<rparr>) p) = [p]) items)
         \<and> current_theme (import_settings ev st file_path (Content s))
           = (if t = ''light'' \<or> t = ''dark'' then t else current_theme st)
         \<and> last (effects (import_settings ev st file_path (Content s)))
           = MessageBox Information ''Settings imported successfully!''
         \<and> (open_write ev batch_list_file = None \<longrightarrow>
              batch_list_json (import_settings ev st file_path (Content s))
                = Content (filter (is_valid_file ev) items))"
proof -
  have rule: "(\<lambda>p. path_exists ev p
                 \<and> (endswith (lower p) ''.exe'' \<or> endswith (lower p) ''.bat''
                      \<or> endswith (lower p) ''.cmd'')
                 \<and> \<not> list_ex (\<lambda>c. List.member p c) ''<>|&'') = is_valid_file ev"
    by (rule ext) (simp add: is_valid_file_def)
  have add: "(\<lambda>p. paths (add_batch_file ev (st\<lparr>batch_table := []\<rparr>) p) = [p]) = is_valid_file ev"
    by (rule ext) (rule add_batch_file_accepts_iff)
  have main: "batch_table (import_settings ev st file_path (Content s))
           = map (\<lambda>p. (p, Stopped)) (filter (is_valid_file ev) items)
         \<and> current_theme (import_settings ev st file_path (Content s))
           = (if t = ''light'' \<or> t = ''dark'' then t else current_theme st)
         \<and> last (effects (import_settings ev st file_path (Content s)))
           = MessageBox Information ''Settings imported successfully!''
         \<and> (open_write ev batch_list_file = None \<longrightarrow>
              batch_list_json (import_settings ev st file_path (Content s))
                = Content (filter (is_valid_file ev) items))"
    using assms
    by (simp add: import_settings_def import_loaded_def Let_def emit_def import_rows_eq
        save_batch_list_fields save_theme_fields)
      (simp add: save_batch_list_def save_theme_def emit_def Let_def comp_def split: option.split)
  show ?thesis
    using main by (simp only: rule add) simp
qed

text \<open>
  C8, amended, on the example of the specification: of \<^verbatim>\<open>C:/good.exe\<close> and
  \<^verbatim>\<open>C:/notes.txt\<close> only the first is kept and the theme becomes \<^verbatim>\<open>dark\<close>; with the
  theme \<^verbatim>\<open>blue\<close> the theme stays \<^verbatim>\<open>light\<close>.
\<close>

theorem import_keeps_valid_entries_witness:
  "batch_table (import_settings demo_env fresh ''settings.json''
      (Content \<lparr>batch_list = Some [''C:/good.exe'', ''C:/notes.txt''], theme = Some ''dark''\<rparr>))
     = [(''C:/good.exe'', Stopped)]
   \<and> current_theme (import_settings demo_env fresh ''settings.json''
      (Content \<lparr>batch_list = Some [''C:/good.exe'', ''C:/notes.txt''], theme = Some ''dark''\<rparr>))
     = ''dark''
   \<and> current_theme (import_settings demo_env fresh ''settings.json''
      (Content \<lparr>batch_list = Some [''C:/good.exe'', ''C:/notes.txt''], theme = Some ''blue''\<rparr>))
     = ''light''"
proof -
  have v: "filter (is_valid_file demo_env) [''C:/good.exe'', ''C:/notes.txt''] = [''C:/good.exe'']"
    by (simp add: valid_good invalid_txt)
  have r: "(\<lambda>p. path_exists demo_env p
                 \<and> (endswith (lower p) ''.exe'' \<or> endswith (lower p) ''.bat''
                      \<or> endswith (lower p) ''.cmd'')
                 \<and> \<not> list_ex (\<lambda>c. List.member p c) ''<>|&'') = is_valid_file demo_env"
    by (rule ext) (simp add: is_valid_file_def)
  show ?thesis
    using import_keeps_valid_entries [where file_path = "''settings.json''"
      and s = "\<lparr>batch_list = Some [''C:/good.exe'', ''C:/notes.txt''], theme = Some ''dark''\<rparr>"
      and items = "[''C:/good.exe'', ''C:/notes.txt'']" and t = "''dark''"
      and ev = demo_env and st = fresh]
    import_keeps_valid_entries [where file_path = "''settings.json''"
      and s = "\<lparr>batch_list = Some [''C:/good.exe'', ''C:/notes.txt''], theme = Some ''blue''\<rparr>"
      and items = "[''C:/good.exe'', ''C:/notes.txt'']" and t = "''blue''"
      and ev = demo_env and st = fresh]
    by (simp only: r v) (simp add: fresh_def)
qed

subsection \<open>Paths with shell characters\<close>

lemma special_invalid:
  assumes "List.member ''<>|&'' c" and "List.member file_path c"
  shows "\<not> is_valid_file ev file_path"
  using assms by (auto simp add: is_valid_file_def list_ex_iff)

text \<open>
  C9: a path that contains one of the characters \<^verbatim>\<open><\<close>, \<^verbatim>\<open>>\<close>, \<^verbatim>\<open>|\<close>, \<^verbatim>\<open>&\<close> fails
  \<^verbatim>\<open>is_valid_file\<close> whatever exists on disk and whatever its extension. So
  \<^verbatim>\<open>add_batch_file\<close> leaves the state as it is, and the path is in the table neither
  after \<^verbatim>\<open>load_batch_list\<close> has read a batch-list file nor after \<^verbatim>\<open>import_settings\<close>
  has read a bundle.
\<close>

theorem special_chars_rejected:
  assumes "List.member ''<>|&'' c" and "List.member file_path c"
  shows "\<not> is_valid_file ev file_path
         \<and> add_batch_file ev st file_path = st
         \<and> (batch_list_json st = Content items \<longrightarrow>
              \<not> List.member (paths (load_batch_list ev st)) file_path)
         \<and> (chosen \<noteq> [] \<longrightarrow>
              \<not> List.member (paths (import_settings ev st chosen (Content s))) file_path)"
proof -
  have inv: "\<not> is_valid_file ev file_path"
    using assms by (rule special_invalid)
  have "paths (import_loaded ev st s)
      = filter (is_valid_file ev) (case batch_list s of None \<Rightarrow> [] | Some items \<Rightarrow> items)"
    by (simp add: paths_def import_loaded_def Let_def emit_def import_rows_eq
        save_batch_list_fields save_theme_fields comp_def)
  then have imp: "file_path \<notin> set (paths (import_loaded ev st s))"
    using inv by simp
  have ld: "batch_list_json st = Content items \<Longrightarrow> file_path \<notin> set (paths (load_batch_list ev st))"
    using inv by (simp add: paths_def load_batch_list_def load_rows_paths)
  show ?thesis
    using inv imp ld by (simp add: add_batch_file_def import_settings_def)
qed

text \<open>
  C9 on \<^verbatim>\<open>C:/a&b.exe\<close>, a file that exists and ends in \<^verbatim>\<open>.exe\<close>.
\<close>

theorem special_chars_rejected_witness:
  "path_exists demo_env ''C:/a&b.exe'' \<and> endswith (lower ''C:/a&b.exe'') ''.exe''
   \<and> \<not> is_valid_file demo_env ''C:/a&b.exe''
   \<and> add_batch_file demo_env fresh ''C:/a&b.exe'' = fresh
   \<and> \<not> List.member
         (paths (load_batch_list demo_env
                   (fresh\<lparr>batch_list_json := Content [''C:/a&b.exe'', ''C:/good.exe'']\<rparr>)))
         ''C:/a&b.exe''
   \<and> \<not> List.member
         (paths (import_settings demo_env fresh ''settings.json''
                   (Content \<lparr>batch_list = Some [''C:/a&b.exe'', ''C:/good.exe''],
                             theme = Some ''dark''\<rparr>)))
         ''C:/a&b.exe''"
proof -
  have c: "List.member ''<>|&'' (CHR ''&'')" and m: "List.member ''C:/a&b.exe'' (CHR ''&'')"
    by simp_all
  have j: "batch_list_json (fresh\<lparr>batch_list_json := Content [''C:/a&b.exe'', ''C:/good.exe'']\<rparr>)
      = Content [''C:/a&b.exe'', ''C:/good.exe'']"
    by simp
  show ?thesis
    using special_chars_rejected [OF c m, where ev = demo_env and st = fresh
        and chosen = "''settings.json''"
        and s = "\<lparr>batch_list = Some [''C:/a&b.exe'', ''C:/good.exe''], theme = Some ''dark''\<rparr>"]
      special_chars_rejected [OF c m, where ev = demo_env
        and st = "fresh\<lparr>batch_list_json := Content [''C:/a&b.exe'', ''C:/good.exe'']\<rparr>"
        and items = "[''C:/a&b.exe'', ''C:/good.exe'']"]
      j
    by (simp add: demo_env_def endswith_def lower_def lower_char_def)
qed

subsection \<open>Starting the batch\<close>

lemma start_rows_paths:
  "map fst (batch_table (start_rows ev rows st)) = map fst (batch_table st)"
proof (induction rows arbitrary: st)
  case Nil
  show ?case by simp
next
  case (Cons row rows)
  have upd: "map fst ((batch_table st)[row := (fst (batch_table st ! row), s)]) = map fst (batch_table st)" for s
    by (cases "row < length (batch_table st)")
      (simp_all add: map_update list_update_same_conv list_update_beyond)
  show ?case
    by (simp add: Let_def Cons.IH emit_def upd split: option.split)
qed

lemma start_rows_status:
  assumes "distinct rows" and "r < length (batch_table st)"
  shows "snd (batch_table (start_rows ev rows st) ! r) =
           (if r \<in> set rows
            then (if popen ev (fst (batch_table st ! r)) = None then Running else Stopped)
            else snd (batch_table st ! r))
         \<and> fst (batch_table (start_rows ev rows st) ! r) = fst (batch_table st ! r)"
  using assms
proof (induction rows arbitrary: st)
  case Nil
  show ?case by simp
next
  case (Cons row rows)
  then show ?case
    by (cases "r = row") (auto simp add: Let_def emit_def split: option.split)
qed

lemma start_rows_keys:
  assumes "\<forall>r\<in>set rows. r < length (batch_table st)"
  shows "fst ` set (processes (start_rows ev rows st)) =
           fst ` set (processes st) \<union>
           {p. \<exists>r\<in>set rows. p = fst (batch_table st ! r) \<and> popen ev p = None}"
  using assms
proof (induction rows arbitrary: st)
  case Nil
  show ?case by simp
next
  case (Cons row rows)
  have nth_keep: "fst ((batch_table st)[row := (fst (batch_table st ! row), s)] ! r) = fst (batch_table st ! r)"
    if "r < length (batch_table st)" for r s
    using that by (cases "r = row") simp_all
  show ?case
  proof (cases "popen ev (fst (batch_table st ! row))")
    case None
    with Cons show ?thesis
      by (auto simp add: Let_def emit_def dom_update nth_keep)
  next
    case (Some e)
    with Cons show ?thesis
      by (auto simp add: Let_def emit_def nth_keep)
  qed
qed

lemma start_all_batch_general:
  "paths (start_all_batch ev st) = paths st
   \<and> map snd (batch_table (start_all_batch ev st))
       = map (\<lambda>p. if popen ev p = None then Running else Stopped) (paths st)
   \<and> fst ` set (processes (start_all_batch ev st)) = {p \<in> set (paths st). popen ev p = None}"
proof -
  let ?st0 = "st\<lparr>processes := []\<rparr>"
  let ?n = "length (batch_table st)"
  have p: "paths (start_all_batch ev st) = paths st"
    by (simp add: paths_def start_all_batch_def start_rows_paths)
  have len: "length (batch_table (start_all_batch ev st)) = ?n"
    using p by (metis paths_def length_map)
  have s: "map snd (batch_table (start_all_batch ev st))
       = map (\<lambda>p. if popen ev p = None then Running else Stopped) (paths st)"
  proof (rule nth_equalityI)
    show "length (map snd (batch_table (start_all_batch ev st)))
        = length (map (\<lambda>p. if popen ev p = None then Running else Stopped) (paths st))"
      using len by (simp add: paths_def)
  next
    fix i assume "i < length (map snd (batch_table (start_all_batch ev st)))"
    then have i: "i < ?n" using len by simp
    then have "snd (batch_table (start_rows ev [0..<?n] ?st0) ! i)
        = (if popen ev (fst (batch_table st ! i)) = None then Running else Stopped)"
      using start_rows_status [of "[0..<?n]" i ?st0 ev] by simp
    then show "map snd (batch_table (start_all_batch ev st)) ! i
        = map (\<lambda>p. if popen ev p = None then Running else Stopped) (paths st) ! i"
      using i len by (simp add: start_all_batch_def paths_def)
  qed
  have "fst ` set (processes (start_rows ev [0..<?n] ?st0))
      = {p. \<exists>r\<in>set [0..<?n]. p = fst (batch_table st ! r) \<and> popen ev p = None}"
    using start_rows_keys [of "[0..<?n]" ?st0 ev] by simp
  also have "\<dots> = {p \<in> set (paths st). popen ev p = None}" (is "?A = ?B")
  proof (intro set_eqI iffI)
    fix p assume "p \<in> ?A"
    then obtain r where "r < ?n" and "p = fst (batch_table st ! r)" and "popen ev p = None"
      by auto
    then have "p = paths st ! r" and "r < length (paths st)"
      by (simp_all add: paths_def)
    then show "p \<in> ?B"
      using \<open>popen ev p = None\<close> by simp
  next
    fix p assume "p \<in> ?B"
    then have "p \<in> set (paths st)" and ok: "popen ev p = None"
      by simp_all
    then obtain r where "r < length (paths st)" and "paths st ! r = p"
      by (meson in_set_conv_nth)
    then have "r < ?n" and "p = fst (batch_table st ! r)"
      by (simp_all add: paths_def)
    then show "p \<in> ?A"
      using ok by auto
  qed
  finally have k: "fst ` set (processes (start_all_batch ev st)) = {p \<in> set (paths st). popen ev p = None}"
    by (simp add: start_all_batch_def)
  show ?thesis using p s k by simp
qed

text \<open>
  C2 does not hold of the code. \<^verbatim>\<open>start_all_batch\<close> never looks whether a path
  exists; it relies on the launch call to raise, and its handler then shows
  \<^verbatim>\<open>Failed to start\<close> and sets the row to Stopped. The call is
  \<^verbatim>\<open>subprocess.Popen(file_path, shell=True)\<close>, which starts the command interpreter
  and hands it the path, so it returns for a path that names no file as well. In
  \<open>shell_env\<close> the file \<^verbatim>\<open>C:/missing.exe\<close> does not exist and the launch call returns
  for every command line: both rows read Running, no failure is shown and two paths
  are tracked.
\<close>

theorem start_all_batch_missing_path_running:
  "\<not> path_exists shell_env ''C:/missing.exe'' \<and>
   start_all_batch shell_env
     (fresh\<lparr>batch_table := [(''C:/good.exe'', Stopped), (''C:/missing.exe'', Stopped)]\<rparr>)
   = fresh\<lparr>batch_table := [(''C:/good.exe'', Running), (''C:/missing.exe'', Running)],
           processes := [(''C:/good.exe'', ''good.exe''), (''C:/missing.exe'', ''missing.exe'')],
           effects := [Popen ''C:/good.exe'', Popen ''C:/missing.exe'']\<rparr>"
  by (simp add: start_all_batch_def shell_env_def fresh_def emit_def Let_def upt_rec)

text \<open>
  When the launch call does raise, the loop goes on with the next row: here the first
  of two launches raises and the second is still attempted and tracked. For any table,
  \<open>start_all_batch_general\<close> above gives the status of every row and the tracked paths
  from the outcomes of the launch calls.
\<close>

lemma start_all_batch_goes_on_after_exception:
  assumes "popen ev p1 = Some e" and "popen ev p2 = None"
    and "batch_table st = [(p1, s1), (p2, s2)]"
  shows "batch_table (start_all_batch ev st) = [(p1, Stopped), (p2, Running)]
       \<and> processes (start_all_batch ev st) = [(p2, basename ev p2)]
       \<and> effects (start_all_batch ev st) = effects st @
            [Popen p1,
             MessageBox Critical (''Failed to start '' @ basename ev p1 @ '': '' @ e),
             Popen p2]"
  using assms by (simp add: start_all_batch_def emit_def Let_def upt_rec)

subsection \<open>Removing an autostart entry\<close>





subsection \<open>Validation of the application name\<close>

text \<open>
  C5 does not hold of the code: the name \<^verbatim>\<open>abc\<close> followed by a newline contains a
  character outside the allowed set, yet \<^verbatim>\<open>validate_app_name\<close> accepts it, since
  \<^verbatim>\<open>$\<close> matches before a final newline, and \<^verbatim>\<open>add_to_autostart\<close> writes it to the
  Run key.
\<close>

theorem add_to_autostart_newline_name:
  "\<not> name_char (CHR 0x0A)
   \<and> validate_app_name (''abc'' @ [CHR 0x0A]) = (True, [])
   \<and> add_to_autostart demo_env fresh ''C:/good.exe'' (''abc'' @ [CHR 0x0A]) False
     = fresh\<lparr>run_key := [(''abc'' @ [CHR 0x0A], dq @ ''C:/good.exe'' @ dq)],
             effects :=
               [RegSetValue (''abc'' @ [CHR 0x0A]) (dq @ ''C:/good.exe'' @ dq),
                MessageBox Information
                  (''Application '' @ sq @ ''abc'' @ [CHR 0x0A] @ sq @ '' added to autostart!''),
                RefreshListing]\<rparr>"
  by (simp add: add_to_autostart_def validate_app_name_def re_match_name_def name_char_def
      add_to_registry_def demo_env_def fresh_def emit_def dq_def sq_def Let_def)

text \<open>
  What the check does reject never reaches a backend: the only change is one error
  message. The names it accepts are the non-empty names over the allowed characters and
  those followed by one newline.
\<close>

lemma add_to_autostart_rejected:
  assumes "app_name = [] \<or> \<not> re_match_name app_name"
  shows "\<exists>msg. add_to_autostart ev st file_path app_name run_as_admin
           = emit (MessageBox Critical msg) st"
  using assms by (auto simp add: add_to_autostart_def validate_app_name_def)

lemma re_match_name_iff:
  "re_match_name s \<longleftrightarrow>
     (s \<noteq> [] \<and> list_all name_char s) \<or>
     (\<exists>b. s = b @ [CHR 0x0A] \<and> b \<noteq> [] \<and> list_all name_char b)"
proof
  assume m: "re_match_name s"
  have split: "s = takeWhile name_char s @ dropWhile name_char s"
    by simp
  have tw: "list_all name_char (takeWhile name_char s)"
    by (simp add: list_all_iff) (meson set_takeWhileD)
  from m consider "dropWhile name_char s = []" | "dropWhile name_char s = [CHR 0x0A]"
    by (auto simp add: re_match_name_def)
  then show "(s \<noteq> [] \<and> list_all name_char s) \<or>
     (\<exists>b. s = b @ [CHR 0x0A] \<and> b \<noteq> [] \<and> list_all name_char b)"
  proof cases
    case 1
    then have eq: "takeWhile name_char s = s"
      using split by (metis append_Nil2)
    have "s \<noteq> []"
      using m eq by (auto simp add: re_match_name_def)
    moreover have "list_all name_char s"
      using tw eq by simp
    ultimately show ?thesis by simp
  next
    case 2
    then have "s = takeWhile name_char s @ [CHR 0x0A]"
      using split by metis
    moreover have "takeWhile name_char s \<noteq> []"
      using m by (simp add: re_match_name_def)
    ultimately show ?thesis
      using tw by blast
  qed
next
  have nl: "\<not> name_char (CHR 0x0A)"
    by (simp add: name_char_def)
  assume "(s \<noteq> [] \<and> list_all name_char s) \<or>
     (\<exists>b. s = b @ [CHR 0x0A] \<and> b \<noteq> [] \<and> list_all name_char b)"
  then show "re_match_name s"
  proof
    assume a: "s \<noteq> [] \<and> list_all name_char s"
    then have whole: "takeWhile name_char s = s" "dropWhile name_char s = []"
      by (simp_all add: list_all_iff)
    show ?thesis
      using a by (simp add: re_match_name_def whole)
  next
    assume "\<exists>b. s = b @ [CHR 0x0A] \<and> b \<noteq> [] \<and> list_all name_char b"
    then obtain b where s: "s = b @ [CHR 0x0A]" and b: "b \<noteq> []" and all: "list_all name_char b"
      by blast
    have parts: "takeWhile name_char s = b" "dropWhile name_char s = [CHR 0x0A]"
      using all nl by (simp_all add: s list_all_iff takeWhile_append2 dropWhile_append2)
    show ?thesis
      using b by (simp add: re_match_name_def parts)
  qed
qed

subsection \<open>Standard error of backend commands\<close>

text \<open>
  C7 does not hold of the code: the scheduler branch of \<^verbatim>\<open>remove_process\<close> runs
  \<^verbatim>\<open>schtasks /Delete\<close> without capturing its output and without reading its exit code.
  Here the command fails with exit code 1 and a text on standard error; the removal
  reports success and the text appears nowhere.
\<close>

theorem remove_scheduler_failure_silent:
  "shell_run demo_env (schtasks_delete_cmd ''Autostart_foo_0123abcd'')
     = Completed 1 ''ERROR: The system cannot find the file specified.''
   \<and> remove_process demo_env fresh True ''Scheduler'' ''Autostart_foo_0123abcd''
     = fresh\<lparr>effects :=
         [Shell (schtasks_delete_cmd ''Autostart_foo_0123abcd''),
          MessageBox Information
            (''Application '' @ sq @ ''Autostart_foo_0123abcd'' @ sq @ '' removed from autostart!''),
          RefreshListing]\<rparr>"
  by (simp add: remove_process_def remove_backend_def demo_env_def fresh_def emit_def)

text \<open>
  The two sibling paths do surface it: a failed \<^verbatim>\<open>schtasks /Create\<close> raises with the
  captured standard error in its text, and a failed \<^verbatim>\<open>taskkill\<close> shows it in a
  warning.
\<close>

lemma create_failure_surfaces_stderr:
  assumes "open_write ev (''Autostart_'' @ app_name @ ''_'' @ uuid_hex8 ev @ ''.xml'') = None"
    and "shell_run ev (schtasks_create_cmd (''Autostart_'' @ app_name @ ''_'' @ uuid_hex8 ev @ ''.xml'')
           (''Autostart_'' @ app_name @ ''_'' @ uuid_hex8 ev)) = Completed returncode stderr"
    and "returncode \<noteq> 0"
  shows "fst (add_to_task_scheduler ev st file_path app_name) = Some (''Task creation error: '' @ stderr)"
  using assms by (simp add: add_to_task_scheduler_def Let_def)

lemma terminate_failure_surfaces_stderr:
  assumes "shell_run ev (taskkill_cmd process_name) = Completed returncode stderr"
    and "returncode \<noteq> 0"
  shows "effects (stop_items ev [(file_path, process_name)] st) = effects st @
           [Shell (taskkill_cmd process_name),
            MessageBox Warning (''Could not stop '' @ process_name @ '': '' @ stderr)]"
  using assms by (simp add: Let_def emit_def)

end
